theory Spec2Isabelle
  imports Main "HOL-Library.AList"
begin

section \<open>JavaScript values and objects\<close>

text \<open>
  A JavaScript value is \<open>undefined\<close>, \<open>null\<close>, a boolean, a number, a string, a
  \<open>Date\<close> (which the document store keeps as a time stamp) or an object. \<open>Date.now()\<close>
  is a number, the milliseconds since the epoch, and \<open>JDate t\<close> is the \<open>Date\<close> of that
  instant. An object is an association list in property order; reading a property that
  is not there gives \<open>undefined\<close>. The accented letters of the source's messages are
  written without their accents.
\<close>

datatype jsval =
    JUndefined
  | JNull
  | JBool bool
  | JNum int
  | JStr string
  | JDate int
  | JObj "(string \<times> jsval) list"

type_synonym obj = "(string \<times> jsval) list"

definition get :: "obj \<Rightarrow> string \<Rightarrow> jsval" where
  "get ob k = (case map_of ob k of None \<Rightarrow> JUndefined | Some v \<Rightarrow> v)"

text \<open>\<open>assign a b\<close> is the object literal \<open>{ ...a, ...b }\<close>: the properties of \<open>b\<close> are
  written into \<open>a\<close> one after the other, a write to a property that is there replacing
  its value in place. An association list is read by its first entry for a key, so only
  those entries of \<open>b\<close> are written (all of them, when \<open>b\<close> names no property twice).\<close>

definition assign :: "obj \<Rightarrow> obj \<Rightarrow> obj" where
  "assign a b = fold (\<lambda>(k, v). AList.update k v) (AList.clearjunk b) a"

text \<open>\<open>omit ks a\<close> is the rest pattern \<open>const { k1, k2, ...rest } = a\<close>.\<close>

definition omit :: "string list \<Rightarrow> obj \<Rightarrow> obj" where
  "omit ks a = filter (\<lambda>(k, v). k \<notin> set ks) a"

fun truthy :: "jsval \<Rightarrow> bool" where
  "truthy JUndefined = False"
| "truthy JNull = False"
| "truthy (JBool b) = b"
| "truthy (JNum n) = (n \<noteq> 0)"
| "truthy (JStr s) = (s \<noteq> [])"
| "truthy (JDate t) = True"
| "truthy (JObj ps) = True"

definition or_js :: "jsval \<Rightarrow> jsval \<Rightarrow> jsval" where
  "or_js a b = (if truthy a then a else b)"

definition startsWith :: "string \<Rightarrow> string \<Rightarrow> bool" where
  "startsWith s p = (take (length p) s = p)"

text \<open>\<open>s.split(c)\<close> for a one-character separator: never empty, \<open>''.split(c)\<close> is \<open>['']\<close>.\<close>

fun split_str :: "char \<Rightarrow> string \<Rightarrow> string list" where
  "split_str c [] = [[]]"
| "split_str c (x # xs) =
     (if x = c then [] # split_str c xs
      else (case split_str c xs of [] \<Rightarrow> [[x]] | w # ws \<Rightarrow> (x # w) # ws))"

text \<open>\<open>xs[i]\<close>: \<open>undefined\<close> (here \<open>None\<close>) out of range.\<close>

definition index :: "'a list \<Rightarrow> nat \<Rightarrow> 'a option" where
  "index xs i = (if i < length xs then Some (xs ! i) else None)"

datatype js_error = JsError (err_code: jsval) (err_message: string)

section \<open>Requests, responses and the outside world\<close>

record response =
  status_code :: nat
  json :: obj

record request =
  authorization :: "string option"
  params :: "(string \<times> string) list"
  body :: obj
  query :: obj
  user :: "obj option"

definition param :: "request \<Rightarrow> string \<Rightarrow> jsval" where
  "param req k = (case map_of (params req) k of None \<Rightarrow> JUndefined | Some s \<Rightarrow> JStr s)"

text \<open>A middleware either answers the request or calls \<open>next()\<close> with the request as it
  has left it.\<close>

datatype outcome = Respond response | Next request

text \<open>What \<open>auth.verifyIdToken\<close> resolves with, and the user record of
  \<open>auth.getUser\<close> and \<open>auth.getUserByEmail\<close>.\<close>

record decoded_token =
  uid :: string
  email :: jsval
  email_verified :: jsval

record user_record =
  ur_uid :: string
  ur_email :: jsval
  displayName :: jsval
  emailVerified :: jsval
  disabled :: jsval
  creationTime :: jsval
  lastSignInTime :: jsval

text \<open>
  The effects a handler has on its collaborators, in the order in which it awaits them:
  an update of the identity provider's record, an update of a profile document, a
  password-reset mail.
\<close>

datatype event =
    IdpUpdate jsval obj
  | StoreUpdate string obj
  | ResetMail obj jsval

text \<open>The \<open>users\<close> collection (document id and data, in the order in which a query
  returns them) and the effects so far.\<close>

record world =
  docs :: "(string \<times> obj) list"
  trace :: "event list"

text \<open>
  The collaborators are outside the repository: the clock, the random token generator,
  the identity provider (\<open>auth\<close>), whether the document store and the mailer fail during
  this request.
\<close>

record env =
  now :: int
  randomToken :: string
  verifyIdToken :: "string \<Rightarrow> js_error + decoded_token"
  getUserByEmail :: "jsval \<Rightarrow> js_error + user_record"
  getUser :: "jsval \<Rightarrow> js_error + user_record"
  updateUser_error :: "jsval \<Rightarrow> obj \<Rightarrow> js_error option"
  read_error :: "js_error option"
  write_error :: "js_error option"
  send_error :: "js_error option"
  development :: bool

section \<open>The document store\<close>

definition path_error :: js_error where
  "path_error = JsError JUndefined ''Value for argument documentPath is not a valid resource path''"

definition not_found :: js_error where
  "not_found = JsError (JNum 5) ''NOT_FOUND: No document to update''"

text \<open>
  \<open>collection('users').doc(path)\<close> throws unless \<open>path\<close> is a non-empty string without
  \<open>//\<close> that names a document: split at the slashes, empty pieces dropped, it has an odd
  number of segments. One segment is the document \<open>users/<id>\<close>; more segments name a
  document of a sub-collection.
\<close>

definition segments :: "string \<Rightarrow> string list" where
  "segments s = filter (\<lambda>x. x \<noteq> []) (split_str CHR ''/'' s)"

fun double_slash :: "string \<Rightarrow> bool" where
  "double_slash (a # b # cs) = ((a = CHR ''/'' \<and> b = CHR ''/'') \<or> double_slash (b # cs))"
| "double_slash cs = False"

definition doc_ref :: "jsval \<Rightarrow> js_error + string list" where
  "doc_ref p =
     (case p of
        JStr s \<Rightarrow>
          if s = [] \<or> double_slash s \<or> even (length (segments s)) then Inl path_error
          else Inr (segments s)
      | _ \<Rightarrow> Inl path_error)"

text \<open>The repository writes no document below \<open>users/<id>\<close>, so a reference into a
  sub-collection finds no document.\<close>

definition lookup :: "(string \<times> obj) list \<Rightarrow> string list \<Rightarrow> obj option" where
  "lookup ds segs = (case segs of [i] \<Rightarrow> map_of ds i | _ \<Rightarrow> None)"

text \<open>\<open>ref.get()\<close>: the snapshot's \<open>id\<close> is the last segment of the reference.\<close>

definition doc_get :: "env \<Rightarrow> world \<Rightarrow> jsval \<Rightarrow> js_error + (string \<times> obj) option" where
  "doc_get e w p =
     (case doc_ref p of
        Inl err \<Rightarrow> Inl err
      | Inr segs \<Rightarrow>
          (case read_error e of
             Some err \<Rightarrow> Inl err
           | None \<Rightarrow> Inr (map_option (\<lambda>d. (last segs, d)) (lookup (docs w) segs))))"

text \<open>\<open>ref.update(upd)\<close> writes the given fields into an existing document and fails when
  there is none.\<close>

definition doc_update :: "env \<Rightarrow> world \<Rightarrow> string list \<Rightarrow> obj \<Rightarrow> js_error + world" where
  "doc_update e w segs upd =
     (case write_error e of
        Some err \<Rightarrow> Inl err
      | None \<Rightarrow>
          (case segs of
             [i] \<Rightarrow>
               if i \<notin> fst ` set (docs w) then Inl not_found
               else Inr (w\<lparr>docs := map (\<lambda>(j, d). if j = i then (j, assign d upd) else (j, d)) (docs w),
                           trace := trace w @ [StoreUpdate i upd]\<rparr>)
           | _ \<Rightarrow> Inl not_found))"

text \<open>A range filter \<open>where(field, '>', n)\<close> with a number keeps the documents whose
  field is a number above \<open>n\<close>; a field that holds a time stamp, a string or \<open>null\<close> is
  never kept.\<close>

definition num_gt :: "jsval \<Rightarrow> int \<Rightarrow> bool" where
  "num_gt v n = (case v of JNum x \<Rightarrow> n < x | _ \<Rightarrow> False)"

text \<open>
  \<open>collection('users').where(tokenField, '==', token).where(expiryField, '>', Date.now()).limit(1)\<close>
\<close>

definition token_query :: "string \<Rightarrow> string \<Rightarrow> jsval \<Rightarrow> int \<Rightarrow> (string \<times> obj) list \<Rightarrow> (string \<times> obj) list" where
  "token_query tokenField expiryField token t ds =
     take 1 (filter (\<lambda>(i, d). get d tokenField = token \<and> num_gt (get d expiryField) t) ds)"

text \<open>The validity of a stored token as the specification words it: the supplied token is
  the stored one and the current time is strictly before the stored expiry, which is a
  number of milliseconds (\<open>resetTokenExpiry\<close>) or a \<open>Date\<close> (\<open>emailVerificationExpires\<close>, as
  \<open>createUser\<close> writes it).\<close>

definition before_expiry :: "int \<Rightarrow> jsval \<Rightarrow> bool" where
  "before_expiry t v = (case v of JNum x \<Rightarrow> t < x | JDate x \<Rightarrow> t < x | _ \<Rightarrow> False)"

definition token_valid :: "jsval \<Rightarrow> int \<Rightarrow> jsval \<Rightarrow> jsval \<Rightarrow> bool" where
  "token_valid token t stored expiry = (token = stored \<and> before_expiry t expiry)"

section \<open>models/userModel.js\<close>

definition UserModel_getUserById :: "env \<Rightarrow> world \<Rightarrow> jsval \<Rightarrow> js_error + obj option" where
  "UserModel_getUserById e w p =
     (case doc_get e w p of
        Inl err \<Rightarrow> Inl (JsError JUndefined ''Error al obtener los datos del usuario'')
      | Inr None \<Rightarrow> Inr None
      | Inr (Some (i, d)) \<Rightarrow> Inr (Some (assign [(''id'', JStr i)] d)))"

text \<open>The mapping of \<open>searchUsers\<close> over the snapshot that its query returns.\<close>

definition safeUser :: "string \<times> obj \<Rightarrow> obj" where
  "safeUser doc = assign [(''id'', JStr (fst doc))] (omit [''password'', ''tokens''] (snd doc))"

definition searchUsers :: "env \<Rightarrow> (string \<times> obj) list \<Rightarrow> js_error + obj list" where
  "searchUsers e snapshot =
     (case read_error e of
        Some err \<Rightarrow> Inl (JsError JUndefined ''Error al buscar usuarios'')
      | None \<Rightarrow> Inr (map safeUser snapshot))"

section \<open>middleware/auth.js\<close>

definition missing_auth_token :: response where
  "missing_auth_token = \<lparr>status_code = 401, json =
     [(''success'', JBool False), (''error'', JStr ''No autorizado''),
      (''message'', JStr ''Se requiere un token de autenticacion''),
      (''code'', JStr ''MISSING_AUTH_TOKEN'')]\<rparr>"

definition empty_auth_token :: response where
  "empty_auth_token = \<lparr>status_code = 401, json =
     [(''success'', JBool False), (''error'', JStr ''No autorizado''),
      (''message'', JStr ''El token de autenticacion esta vacio''),
      (''code'', JStr ''EMPTY_AUTH_TOKEN'')]\<rparr>"

definition token_expired :: response where
  "token_expired = \<lparr>status_code = 401, json =
     [(''success'', JBool False), (''error'', JStr ''Sesion expirada''),
      (''message'', JStr ''Tu sesion ha expirado. Por favor, inicia sesion nuevamente.''),
      (''code'', JStr ''TOKEN_EXPIRED'')]\<rparr>"

definition invalid_token :: response where
  "invalid_token = \<lparr>status_code = 400, json =
     [(''success'', JBool False), (''error'', JStr ''Token invalido''),
      (''message'', JStr ''El formato del token no es valido o esta corrupto''),
      (''code'', JStr ''INVALID_TOKEN'')]\<rparr>"

definition user_fetch_error :: response where
  "user_fetch_error = \<lparr>status_code = 500, json =
     [(''success'', JBool False), (''error'', JStr ''Error del servidor''),
      (''message'', JStr ''No se pudo recuperar la informacion del usuario''),
      (''code'', JStr ''USER_FETCH_ERROR'')]\<rparr>"

definition user_not_found :: response where
  "user_not_found = \<lparr>status_code = 404, json =
     [(''success'', JBool False), (''error'', JStr ''Usuario no encontrado''),
      (''message'', JStr ''El perfil de usuario no existe en la base de datos''),
      (''code'', JStr ''USER_NOT_FOUND'')]\<rparr>"

definition account_inactive :: "jsval \<Rightarrow> response" where
  "account_inactive st = \<lparr>status_code = 403, json =
     [(''success'', JBool False), (''error'', JStr ''Cuenta inactiva''),
      (''message'', JStr ''Tu cuenta ha sido desactivada o suspendida''),
      (''code'', JStr ''ACCOUNT_INACTIVE''),
      (''status'', st)]\<rparr>"

definition auth_error :: "env \<Rightarrow> js_error \<Rightarrow> response" where
  "auth_error e err = \<lparr>status_code = 500, json =
     [(''success'', JBool False), (''error'', JStr ''Error de autenticacion''),
      (''message'', JStr ''Ocurrio un error al procesar la autenticacion''),
      (''code'', JStr ''AUTH_ERROR''),
      (''details'', if development e then JStr (err_message err) else JUndefined)]\<rparr>"

definition principal :: "decoded_token \<Rightarrow> obj \<Rightarrow> obj" where
  "principal decodedToken usr =
     assign [(''id'', JStr (uid decodedToken)),
             (''email'', email decodedToken),
             (''emailVerified'', or_js (email_verified decodedToken) (JBool False))] usr"

definition isAuthenticated :: "env \<Rightarrow> world \<Rightarrow> request \<Rightarrow> outcome" where
  "isAuthenticated e w req =
     (case authorization req of
        None \<Rightarrow> Respond missing_auth_token
      | Some authHeader \<Rightarrow>
          if authHeader = [] \<or> \<not> startsWith authHeader ''Bearer '' then Respond missing_auth_token
          else
            (case index (split_str CHR '' '' authHeader) 1 of
               None \<Rightarrow> Respond empty_auth_token
             | Some token \<Rightarrow>
                 if token = [] then Respond empty_auth_token
                 else
                   (case verifyIdToken e token of
                      Inl authError \<Rightarrow>
                        if err_code authError = JStr ''auth/id-token-expired''
                        then Respond token_expired
                        else if err_code authError = JStr ''auth/argument-error''
                                \<or> err_code authError = JStr ''auth/invalid-id-token''
                        then Respond invalid_token
                        else Respond (auth_error e authError)
                    | Inr decodedToken \<Rightarrow>
                        (case UserModel_getUserById e w (JStr (uid decodedToken)) of
                           Inl dbError \<Rightarrow> Respond user_fetch_error
                         | Inr None \<Rightarrow> Respond user_not_found
                         | Inr (Some usr) \<Rightarrow>
                             if get usr ''status'' \<noteq> JStr ''active''
                             then Respond (account_inactive (get usr ''status''))
                             else Next (req\<lparr>user := Some (principal decodedToken usr)\<rparr>)))))"

definition unauthenticated :: response where
  "unauthenticated = \<lparr>status_code = 401, json =
     [(''error'', JStr ''No autenticado''),
      (''details'', JStr ''Se requiere autenticacion para acceder a este recurso'')]\<rparr>"

definition forbidden_ownership :: response where
  "forbidden_ownership = \<lparr>status_code = 403, json =
     [(''error'', JStr ''Acceso denegado''),
      (''details'', JStr ''Solo puedes acceder a tus propios recursos'')]\<rparr>"

definition isOwnerOrAdmin :: "string \<Rightarrow> request \<Rightarrow> outcome" where
  "isOwnerOrAdmin idParam req =
     (case user req of
        None \<Rightarrow> Respond unauthenticated
      | Some usr \<Rightarrow>
          if get usr ''role'' = JStr ''admin'' then Next req
          else if param req idParam \<noteq> get usr ''id'' then Respond forbidden_ownership
          else Next req)"

section \<open>controllers/userController.js\<close>

definition server_error :: "string \<Rightarrow> response" where
  "server_error msg = \<lparr>status_code = 500, json = [(''error'', JStr msg)]\<rparr>"

definition bad_request :: "string \<Rightarrow> response" where
  "bad_request msg = \<lparr>status_code = 400, json = [(''error'', JStr msg)]\<rparr>"

definition ok_message :: "string \<Rightarrow> response" where
  "ok_message msg = \<lparr>status_code = 200, json = [(''message'', JStr msg)]\<rparr>"

definition reset_link_sent :: response where
  "reset_link_sent =
     ok_message ''If an account with that email exists, a password reset link has been sent''"

text \<open>
  The controller's first line is \<open>const { auth } = require('../config/firebase')\<close>, and no
  line of the controller declares \<open>db\<close>. Evaluating the identifier \<open>db\<close> throws a
  ReferenceError, whatever the store holds, and the \<open>catch\<close> of the handler that evaluated it
  answers with that handler's 500.
\<close>

definition db :: "js_error + unit" where
  "db = Inl (JsError JUndefined ''db is not defined'')"

definition requestPasswordReset :: "env \<Rightarrow> world \<Rightarrow> request \<Rightarrow> response \<times> world" where
  "requestPasswordReset e w req =
     (case getUserByEmail e (get (body req) ''email'') of
        Inl err \<Rightarrow> (reset_link_sent, w)
      | Inr usr \<Rightarrow>
          (let resetToken = JStr (randomToken e);
               resetTokenExpiry = JNum (now e + 3600000)
           in case db of
                Inl err \<Rightarrow> (server_error ''Error processing password reset request'', w)
              | Inr store \<Rightarrow>
                  (case doc_ref (JStr (ur_uid usr)) of
                     Inl err \<Rightarrow> (server_error ''Error processing password reset request'', w)
                   | Inr segs \<Rightarrow>
                       (case doc_update e w segs
                               [(''resetToken'', resetToken), (''resetTokenExpiry'', resetTokenExpiry)] of
                          Inl err \<Rightarrow> (server_error ''Error processing password reset request'', w)
                        | Inr w1 \<Rightarrow>
                            (case send_error e of
                               Some err \<Rightarrow> (server_error ''Error sending password reset email'', w1)
                             | None \<Rightarrow>
                                 (reset_link_sent,
                                  w1\<lparr>trace := trace w1 @
                                       [ResetMail [(''email'', ur_email usr),
                                                   (''displayName'', or_js (displayName usr) (JStr ''User''))]
                                                  resetToken]\<rparr>))))))"

definition resetPassword :: "env \<Rightarrow> world \<Rightarrow> request \<Rightarrow> response \<times> world" where
  "resetPassword e w req =
     (let token = get (body req) ''token'';
          newPassword = get (body req) ''newPassword''
      in if \<not> truthy token \<or> \<not> truthy newPassword
         then (bad_request ''Token and new password are required'', w)
         else
           (case db of
              Inl err \<Rightarrow> (server_error ''Error resetting password'', w)
            | Inr store \<Rightarrow>
           (case read_error e of
              Some err \<Rightarrow> (server_error ''Error resetting password'', w)
            | None \<Rightarrow>
                (case token_query ''resetToken'' ''resetTokenExpiry'' token (now e) (docs w) of
                   [] \<Rightarrow> (bad_request ''Invalid or expired token'', w)
                 | (i, userData) # others \<Rightarrow>
                     (case updateUser_error e (get userData ''uid'') [(''password'', newPassword)] of
                        Some err \<Rightarrow> (server_error ''Error resetting password'', w)
                      | None \<Rightarrow>
                          (let w1 = w\<lparr>trace := trace w @
                                       [IdpUpdate (get userData ''uid'') [(''password'', newPassword)]]\<rparr>
                           in case doc_update e w1 [i]
                                     [(''resetToken'', JNull), (''resetTokenExpiry'', JNull)] of
                                Inl err \<Rightarrow> (server_error ''Error resetting password'', w1)
                              | Inr w2 \<Rightarrow> (ok_message ''Password has been reset successfully'', w2)))))))"

definition verifyEmail :: "env \<Rightarrow> world \<Rightarrow> request \<Rightarrow> response \<times> world" where
  "verifyEmail e w req =
     (let token = get (query req) ''token''
      in if \<not> truthy token
         then (bad_request ''Verification token is required'', w)
         else
           (case db of
              Inl err \<Rightarrow> (server_error ''Error verifying email'', w)
            | Inr store \<Rightarrow>
           (case read_error e of
              Some err \<Rightarrow> (server_error ''Error verifying email'', w)
            | None \<Rightarrow>
                (case token_query ''emailVerificationToken'' ''emailVerificationExpires'' token (now e) (docs w) of
                   [] \<Rightarrow> (bad_request ''Invalid or expired verification token'', w)
                 | (i, userData) # others \<Rightarrow>
                     (case updateUser_error e (get userData ''uid'') [(''emailVerified'', JBool True)] of
                        Some err \<Rightarrow> (server_error ''Error verifying email'', w)
                      | None \<Rightarrow>
                          (let w1 = w\<lparr>trace := trace w @
                                       [IdpUpdate (get userData ''uid'') [(''emailVerified'', JBool True)]]\<rparr>
                           in case doc_update e w1 [i]
                                     [(''emailVerified'', JBool True),
                                      (''emailVerificationToken'', JNull),
                                      (''emailVerificationExpires'', JNull)] of
                                Inl err \<Rightarrow> (server_error ''Error verifying email'', w1)
                              | Inr w2 \<Rightarrow> (ok_message ''Email verified successfully'', w2)))))))"

definition error_details :: "nat \<Rightarrow> string \<Rightarrow> string \<Rightarrow> response" where
  "error_details st msg det =
     \<lparr>status_code = st, json = [(''error'', JStr msg), (''details'', JStr det)]\<rparr>"

text \<open>\<open>getUserById\<close> of the controller; \<open>res.json\<close> without a status answers 200. Reading
  \<open>req.user.role\<close> when no principal is attached is a TypeError, caught by the handler.\<close>

definition getUserById :: "env \<Rightarrow> world \<Rightarrow> request \<Rightarrow> response" where
  "getUserById e w req =
     (case user req of
        None \<Rightarrow>
          error_details 500 ''Error al obtener el usuario''
            ''Cannot read properties of undefined (reading 'role')''
      | Some usr \<Rightarrow>
          (let id = param req ''id'';
               isAdmin = (get usr ''role'' = JStr ''admin'');
               isSelf = (get usr ''id'' = id)
           in if \<not> isAdmin \<and> \<not> isSelf
              then error_details 403 ''No autorizado'' ''No tienes permiso para ver este perfil''
              else
                (case UserModel_getUserById e w id of
                   Inl err \<Rightarrow> error_details 500 ''Error al obtener el usuario'' (err_message err)
                 | Inr None \<Rightarrow>
                     error_details 404 ''Usuario no encontrado''
                       ''El ID proporcionado no corresponde a ningun usuario''
                 | Inr (Some prof) \<Rightarrow>
                     (case getUser e id of
                        Inr authUser \<Rightarrow>
                          \<lparr>status_code = 200, json =
                             assign [(''id'', id),
                                     (''email'', ur_email authUser),
                                     (''emailVerified'', emailVerified authUser),
                                     (''disabled'', disabled authUser),
                                     (''metadata'', JObj [(''creationTime'', creationTime authUser),
                                                          (''lastSignInTime'', lastSignInTime authUser)])]
                                    prof\<rparr>
                      | Inl authError \<Rightarrow>
                          if err_code authError = JStr ''auth/user-not-found''
                          then \<lparr>status_code = 200, json = assign [(''id'', id)] prof\<rparr>
                          else error_details 500 ''Error al obtener el usuario''
                                 (err_message authError)))))"

text \<open>The principal that a middleware has attached, if it called \<open>next()\<close>.\<close>

definition attached :: "outcome \<Rightarrow> obj option" where
  "attached out = (case out of Next r \<Rightarrow> user r | Respond r \<Rightarrow> None)"

section \<open>Concrete requests and stores\<close>

definition alice :: user_record where
  "alice = \<lparr>ur_uid = ''u1'', ur_email = JStr ''alice@new.io'', displayName = JUndefined,
            emailVerified = JBool True, disabled = JBool False,
            creationTime = JStr ''Mon'', lastSignInTime = JStr ''Tue''\<rparr>"

definition ex_env :: env where
  "ex_env = \<lparr>now = 1000, randomToken = ''r4nd0m'',
     verifyIdToken = (\<lambda>t.
        if t = ''good'' then Inr \<lparr>uid = ''u1'', email = JStr ''alice@new.io'', email_verified = JBool True\<rparr>
        else if t = ''late'' then Inr \<lparr>uid = ''u2'', email = JStr ''bob@x.io'', email_verified = JBool False\<rparr>
        else if t = ''old'' then Inl (JsError (JStr ''auth/id-token-expired'') ''expired'')
        else Inl (JsError (JStr ''auth/invalid-id-token'') ''malformed'')),
     getUserByEmail = (\<lambda>m.
        if m = JStr ''alice@new.io'' then Inr alice
        else Inl (JsError (JStr ''auth/user-not-found'') ''no user'')),
     getUser = (\<lambda>i.
        if i = JStr ''u1'' then Inr alice
        else Inl (JsError (JStr ''auth/user-not-found'') ''no user'')),
     updateUser_error = (\<lambda>i props. None),
     read_error = None, write_error = None, send_error = None, development = False\<rparr>"

definition ex_docs :: "(string \<times> obj) list" where
  "ex_docs =
     [(''u1'', [(''uid'', JStr ''u1''), (''email'', JStr ''alice@old.io''), (''role'', JStr ''patient''),
                (''status'', JStr ''active''), (''emailVerified'', JBool False),
                (''resetToken'', JStr ''r1''), (''resetTokenExpiry'', JNum 2000),
                (''emailVerificationToken'', JStr ''v1''), (''emailVerificationExpires'', JDate 2000)]),
      (''u2'', [(''uid'', JStr ''u2''), (''email'', JStr ''bob@x.io''), (''role'', JStr ''doctor''),
                (''status'', JStr ''suspended''), (''emailVerified'', JBool True),
                (''resetToken'', JNull), (''resetTokenExpiry'', JNull)])]"

definition ex_world :: world where
  "ex_world = \<lparr>docs = ex_docs, trace = []\<rparr>"

definition bearer :: "string \<Rightarrow> request" where
  "bearer t = \<lparr>authorization = Some (''Bearer '' @ t), params = [(''id'', ''u1'')],
               body = [], query = [], user = None\<rparr>"

definition reset_request :: "string \<Rightarrow> request" where
  "reset_request m = \<lparr>authorization = None, params = [],
                       body = [(''email'', JStr m)], query = [], user = None\<rparr>"

definition reset_with :: "string \<Rightarrow> request" where
  "reset_with t = \<lparr>authorization = None, params = [],
                    body = [(''token'', JStr t), (''newPassword'', JStr ''S3cret!pw'')],
                    query = [], user = None\<rparr>"

definition verify_with :: "string \<Rightarrow> request" where
  "verify_with t = \<lparr>authorization = None, params = [], body = [],
                     query = [(''token'', JStr t)], user = None\<rparr>"

definition as_user :: "string \<Rightarrow> string \<Rightarrow> string \<Rightarrow> request" where
  "as_user i r target = \<lparr>authorization = None, params = [(''id'', target)], body = [], query = [],
                          user = Some [(''id'', JStr i), (''role'', JStr r)]\<rparr>"

section \<open>Objects and strings\<close>

lemma map_of_fold_update:
  "distinct (map fst b) \<Longrightarrow>
   map_of (fold (\<lambda>(k, v). AList.update k v) b a) = map_of a ++ map_of b"
proof (induction b arbitrary: a)
  case Nil
  then show ?case by simp
next
  case (Cons p b)
  obtain k v where p: "p = (k, v)" by (cases p)
  from Cons.prems have d: "distinct (map fst b)" and k: "map_of b k = None"
    by (auto simp: p map_of_eq_None_iff)
  show ?case
    by (rule ext) (simp add: p Cons.IH [OF d] update_conv' map_add_def k split: option.splits)
qed

lemma map_of_assign: "map_of (assign a b) = map_of a ++ map_of b"
  by (simp add: assign_def map_of_fold_update distinct_clearjunk map_of_clearjunk)

lemma get_assign:
  "get (assign a b) k = (case map_of b k of None \<Rightarrow> get a k | Some v \<Rightarrow> v)"
  by (simp add: get_def map_of_assign map_add_def split: option.splits)

lemma split_str_nonempty: "split_str c xs \<noteq> []"
  by (induction xs) (auto split: list.splits)

lemma hd_split_str: "hd (split_str c xs) = takeWhile (\<lambda>x. x \<noteq> c) xs"
  by (induction xs) (auto split: list.splits simp: split_str_nonempty)

lemma split_str_append:
  "c \<notin> set p \<Longrightarrow> split_str c (p @ c # rest) = p # split_str c rest"
  by (induction p) (auto split: list.splits)

lemma bearer_token:
  "index (split_str CHR '' '' (''Bearer '' @ rest)) 1 = Some (takeWhile (\<lambda>x. x \<noteq> CHR '' '') rest)"
proof -
  have "split_str CHR '' '' (''Bearer'' @ CHR '' '' # rest) = ''Bearer'' # split_str CHR '' '' rest"
    by (rule split_str_append) simp
  moreover obtain w ws where "split_str CHR '' '' rest = w # ws"
    using split_str_nonempty [of "CHR '' ''" rest] by (cases "split_str CHR '' '' rest") auto
  moreover from this have "w = takeWhile (\<lambda>x. x \<noteq> CHR '' '') rest"
    using hd_split_str [of "CHR '' ''" rest] by simp
  ultimately show ?thesis by (simp add: index_def)
qed

lemma startsWith_Bearer: "startsWith (''Bearer '' @ rest) ''Bearer ''"
  by (simp add: startsWith_def)

section \<open>The session resolver\<close>

text \<open>
  C9. A request to a protected route with no \<open>Authorization\<close> header, or with a header
  that does not start with \<open>Bearer \<close>, is answered 401 with code \<open>MISSING_AUTH_TOKEN\<close>;
  a header \<open>Bearer \<close> followed by an empty token (nothing, or a space at once) is answered
  401 with code \<open>EMPTY_AUTH_TOKEN\<close>.
\<close>

theorem isAuthenticated_missing_or_empty_token:
  "(authorization req = None \<or> (\<exists>h. authorization req = Some h \<and> \<not> startsWith h ''Bearer '')
      \<longrightarrow> isAuthenticated e w req = Respond missing_auth_token)
   \<and> (authorization req = Some (''Bearer '' @ rest) \<and> takeWhile (\<lambda>c. c \<noteq> CHR '' '') rest = []
      \<longrightarrow> isAuthenticated e w req = Respond empty_auth_token)
   \<and> status_code missing_auth_token = 401
   \<and> get (json missing_auth_token) ''code'' = JStr ''MISSING_AUTH_TOKEN''
   \<and> status_code empty_auth_token = 401
   \<and> get (json empty_auth_token) ''code'' = JStr ''EMPTY_AUTH_TOKEN''"
proof -
  have a: "isAuthenticated e w req = Respond missing_auth_token"
    if "authorization req = None \<or> (\<exists>h. authorization req = Some h \<and> \<not> startsWith h ''Bearer '')"
    using that by (auto simp: isAuthenticated_def)
  have b: "isAuthenticated e w req = Respond empty_auth_token"
    if "authorization req = Some (''Bearer '' @ rest)" "takeWhile (\<lambda>c. c \<noteq> CHR '' '') rest = []"
    using that bearer_token [of rest] startsWith_Bearer [of rest]
    by (simp add: isAuthenticated_def)
  show ?thesis using a b
    by (simp add: missing_auth_token_def empty_auth_token_def get_def)
qed

theorem isAuthenticated_missing_or_empty_token_witness:
  "isAuthenticated ex_env ex_world (reset_request ''a@x.io'') = Respond missing_auth_token
   \<and> isAuthenticated ex_env ex_world (bearer []) = Respond empty_auth_token
   \<and> status_code missing_auth_token = 401
   \<and> get (json missing_auth_token) ''code'' = JStr ''MISSING_AUTH_TOKEN''
   \<and> status_code empty_auth_token = 401
   \<and> get (json empty_auth_token) ''code'' = JStr ''EMPTY_AUTH_TOKEN''"
  using isAuthenticated_missing_or_empty_token
          [where req = "reset_request ''a@x.io''" and e = ex_env and w = ex_world]
        isAuthenticated_missing_or_empty_token
          [where req = "bearer []" and rest = "[]" and e = ex_env and w = ex_world]
  by (simp add: reset_request_def bearer_def)

lemma isAuthenticated_bearer:
  assumes "authorization req = Some (''Bearer '' @ rest)"
    and "takeWhile (\<lambda>c. c \<noteq> CHR '' '') rest = token"
    and "token \<noteq> []"
  shows "isAuthenticated e w req =
     (case verifyIdToken e token of
        Inl authError \<Rightarrow>
          if err_code authError = JStr ''auth/id-token-expired''
          then Respond token_expired
          else if err_code authError = JStr ''auth/argument-error''
                  \<or> err_code authError = JStr ''auth/invalid-id-token''
          then Respond invalid_token
          else Respond (auth_error e authError)
      | Inr decodedToken \<Rightarrow>
          (case UserModel_getUserById e w (JStr (uid decodedToken)) of
             Inl dbError \<Rightarrow> Respond user_fetch_error
           | Inr None \<Rightarrow> Respond user_not_found
           | Inr (Some usr) \<Rightarrow>
               if get usr ''status'' \<noteq> JStr ''active''
               then Respond (account_inactive (get usr ''status''))
               else Next (req\<lparr>user := Some (principal decodedToken usr)\<rparr>)))"
  using assms bearer_token [of rest] startsWith_Bearer [of rest]
  by (simp add: isAuthenticated_def)

lemma UserModel_getUserById_found:
  "doc_get e w p = Inr (Some (i, d)) \<Longrightarrow>
   UserModel_getUserById e w p = Inr (Some (assign [(''id'', JStr i)] d))"
  by (simp add: UserModel_getUserById_def)

lemma get_profile_status:
  "get (assign [(''id'', JStr i)] d) ''status'' = get d ''status''"
  unfolding get_assign by (simp add: get_def split: option.splits)

lemma UserModel_getUserById_SomeD:
  assumes "UserModel_getUserById e w p = Inr (Some usr)"
  shows "\<exists>i d. doc_get e w p = Inr (Some (i, d)) \<and> usr = assign [(''id'', JStr i)] d"
  using assms
  by (auto simp: UserModel_getUserById_def split: sum.splits option.splits)

lemma get_principal:
  "get (principal dec (assign [(''id'', JStr i)] d)) k =
     (case map_of d k of
        Some v \<Rightarrow> v
      | None \<Rightarrow>
          if k = ''id'' then JStr i
          else get [(''email'', email dec),
                    (''emailVerified'', or_js (email_verified dec) (JBool False))] k)"
  unfolding principal_def get_assign
  by (simp add: map_of_assign map_add_def get_def split: option.splits)

lemma startsWith_BearerD:
  assumes "startsWith h ''Bearer ''"
  shows "\<exists>rest. h = ''Bearer '' @ rest"
proof -
  from assms have "take (length ''Bearer '') h = ''Bearer ''" by (simp only: startsWith_def)
  then have "h = ''Bearer '' @ drop (length ''Bearer '') h" by (metis append_take_drop_id)
  then show ?thesis ..
qed

lemma isAuthenticated_NextD:
  assumes "isAuthenticated e w req = Next r"
  shows "\<exists>rest dec usr.
           authorization req = Some (''Bearer '' @ rest)
         \<and> takeWhile (\<lambda>c. c \<noteq> CHR '' '') rest \<noteq> []
         \<and> verifyIdToken e (takeWhile (\<lambda>c. c \<noteq> CHR '' '') rest) = Inr dec
         \<and> UserModel_getUserById e w (JStr (uid dec)) = Inr (Some usr)
         \<and> get usr ''status'' = JStr ''active''
         \<and> r = req\<lparr>user := Some (principal dec usr)\<rparr>"
proof (cases "authorization req")
  case None
  with assms show ?thesis by (simp add: isAuthenticated_def)
next
  case (Some h)
  with assms have "startsWith h ''Bearer ''"
    by (simp add: isAuthenticated_def split: if_splits)
  from startsWith_BearerD [OF this] obtain rest where h: "h = ''Bearer '' @ rest" ..
  let ?token = "takeWhile (\<lambda>c. c \<noteq> CHR '' '') rest"
  have hdr: "authorization req = Some (''Bearer '' @ rest)" using Some h by simp
  have tok: "?token \<noteq> []"
  proof
    assume "?token = []"
    with hdr bearer_token [of rest] startsWith_Bearer [of rest]
    have "isAuthenticated e w req = Respond empty_auth_token"
      by (simp add: isAuthenticated_def)
    with assms show False by simp
  qed
  note step = isAuthenticated_bearer [OF hdr refl tok, of e w]
  show ?thesis
  proof (cases "verifyIdToken e ?token")
    case (Inl err)
    with assms step show ?thesis by (simp split: if_splits)
  next
    case (Inr dec)
    show ?thesis
    proof (cases "UserModel_getUserById e w (JStr (uid dec))")
      case (Inl err)
      with assms step Inr show ?thesis by simp
    next
      case u: (Inr found)
      show ?thesis
      proof (cases found)
        case None
        with assms step Inr u show ?thesis by simp
      next
        case (Some usr)
        with assms step Inr u hdr tok show ?thesis by (auto split: if_splits)
      qed
    qed
  qed
qed

lemma good_request_passes:
  "isAuthenticated ex_env ex_world (bearer ''good'') =
     Next (bearer ''good''
       \<lparr>user := Some (principal \<lparr>uid = ''u1'', email = JStr ''alice@new.io'', email_verified = JBool True\<rparr>
          (assign [(''id'', JStr ''u1'')] (snd (hd ex_docs))))\<rparr>)"
  by (subst isAuthenticated_bearer [where rest = "''good''" and token = "''good''"])
     (simp_all add: bearer_def ex_env_def ex_world_def ex_docs_def UserModel_getUserById_def
        doc_get_def doc_ref_def segments_def lookup_def get_profile_status, simp add: get_def)

text \<open>
  C1, as the specification states it: on success the principal's \<open>id\<close>, \<open>email\<close> and
  \<open>emailVerified\<close> are those of the verified token, the stored profile taking precedence
  for the other keys only. The object literal spreads the profile last, so a profile that
  stores \<open>email\<close> and \<open>emailVerified\<close> overrides the token's claims.
\<close>

theorem principal_identity_counterexample:
  "verifyIdToken ex_env ''good'' =
     Inr \<lparr>uid = ''u1'', email = JStr ''alice@new.io'', email_verified = JBool True\<rparr>
   \<and> map_option (\<lambda>p. (get p ''email'', get p ''emailVerified''))
        (attached (isAuthenticated ex_env ex_world (bearer ''good'')))
     = Some (JStr ''alice@old.io'', JBool False)"
proof -
  have "verifyIdToken ex_env ''good'' =
     Inr \<lparr>uid = ''u1'', email = JStr ''alice@new.io'', email_verified = JBool True\<rparr>"
    by (simp add: ex_env_def)
  moreover have "map_option (\<lambda>p. (get p ''email'', get p ''emailVerified''))
        (attached (isAuthenticated ex_env ex_world (bearer ''good'')))
     = Some (JStr ''alice@old.io'', JBool False)"
    by (simp add: good_request_passes attached_def)
       (simp add: get_principal [of "\<lparr>uid = ''u1'', email = JStr ''alice@new.io'', email_verified = JBool True\<rparr>", simplified]
          ex_docs_def)
  ultimately show ?thesis by simp
qed

text \<open>
  C1, amended: \<open>isAuthenticated\<close> calls \<open>next()\<close> exactly when the header is
  \<open>Bearer \<close> followed by a non-empty token, the identity provider verifies that token, and
  the profile document looked up under the token's \<open>uid\<close> exists with status \<open>active\<close>. The
  principal it attaches is then the claims of that token (\<open>id\<close>, \<open>email\<close>, \<open>emailVerified\<close>,
  the last one \<open>false\<close> when the claim is falsy) overwritten by the profile: every field of
  the profile document takes precedence, \<open>id\<close> is the document's id unless the document
  has an \<open>id\<close> field, and the token's \<open>email\<close> and \<open>emailVerified\<close> are seen only where the
  document has no field of that name.
\<close>

theorem principal_profile_precedence:
  "(isAuthenticated e w req = Next r \<longleftrightarrow>
      (\<exists>rest dec i d.
          authorization req = Some (''Bearer '' @ rest)
        \<and> takeWhile (\<lambda>c. c \<noteq> CHR '' '') rest \<noteq> []
        \<and> verifyIdToken e (takeWhile (\<lambda>c. c \<noteq> CHR '' '') rest) = Inr dec
        \<and> doc_get e w (JStr (uid dec)) = Inr (Some (i, d))
        \<and> get d ''status'' = JStr ''active''
        \<and> r = req\<lparr>user := Some (principal dec (assign [(''id'', JStr i)] d))\<rparr>))
   \<and> (\<forall>k. get (principal dec' (assign [(''id'', JStr i')] d')) k =
         (case map_of d' k of
            Some v \<Rightarrow> v
          | None \<Rightarrow>
              if k = ''id'' then JStr i'
              else if k = ''email'' then email dec'
              else if k = ''emailVerified'' then or_js (email_verified dec') (JBool False)
              else JUndefined))"
proof -
  have forward: "\<exists>rest dec i d.
          authorization req = Some (''Bearer '' @ rest)
        \<and> takeWhile (\<lambda>c. c \<noteq> CHR '' '') rest \<noteq> []
        \<and> verifyIdToken e (takeWhile (\<lambda>c. c \<noteq> CHR '' '') rest) = Inr dec
        \<and> doc_get e w (JStr (uid dec)) = Inr (Some (i, d))
        \<and> get d ''status'' = JStr ''active''
        \<and> r = req\<lparr>user := Some (principal dec (assign [(''id'', JStr i)] d))\<rparr>"
    if "isAuthenticated e w req = Next r"
  proof -
    from isAuthenticated_NextD [OF that] obtain rest dec usr where
      hdr: "authorization req = Some (''Bearer '' @ rest)"
      and tok: "takeWhile (\<lambda>c. c \<noteq> CHR '' '') rest \<noteq> []"
      and v: "verifyIdToken e (takeWhile (\<lambda>c. c \<noteq> CHR '' '') rest) = Inr dec"
      and u: "UserModel_getUserById e w (JStr (uid dec)) = Inr (Some usr)"
      and st: "get usr ''status'' = JStr ''active''"
      and r: "r = req\<lparr>user := Some (principal dec usr)\<rparr>"
      by blast
    from UserModel_getUserById_SomeD [OF u] obtain i d where
      g: "doc_get e w (JStr (uid dec)) = Inr (Some (i, d))"
      and usr: "usr = assign [(''id'', JStr i)] d"
      by blast
    from st usr have "get d ''status'' = JStr ''active''" by (simp add: get_profile_status)
    with hdr tok v g r usr show ?thesis by blast
  qed
  have backward: "isAuthenticated e w req = Next r"
    if hdr: "authorization req = Some (''Bearer '' @ rest)"
      and tok: "takeWhile (\<lambda>c. c \<noteq> CHR '' '') rest \<noteq> []"
      and v: "verifyIdToken e (takeWhile (\<lambda>c. c \<noteq> CHR '' '') rest) = Inr dec"
      and g: "doc_get e w (JStr (uid dec)) = Inr (Some (i, d))"
      and st: "get d ''status'' = JStr ''active''"
      and r: "r = req\<lparr>user := Some (principal dec (assign [(''id'', JStr i)] d))\<rparr>"
    for rest dec i d
    using v st r
    by (simp add: isAuthenticated_bearer [OF hdr refl tok]
        UserModel_getUserById_found [OF g] get_profile_status)
  have fields: "get (principal dec' (assign [(''id'', JStr i')] d')) k =
         (case map_of d' k of
            Some v \<Rightarrow> v
          | None \<Rightarrow>
              if k = ''id'' then JStr i'
              else if k = ''email'' then email dec'
              else if k = ''emailVerified'' then or_js (email_verified dec') (JBool False)
              else JUndefined)" for k
    unfolding get_principal by (simp add: get_def split: option.splits)
  from forward backward fields show ?thesis by blast
qed

theorem principal_profile_precedence_witness:
  "(\<exists>rest dec i d.
        authorization (bearer ''good'') = Some (''Bearer '' @ rest)
      \<and> takeWhile (\<lambda>c. c \<noteq> CHR '' '') rest \<noteq> []
      \<and> verifyIdToken ex_env (takeWhile (\<lambda>c. c \<noteq> CHR '' '') rest) = Inr dec
      \<and> doc_get ex_env ex_world (JStr (uid dec)) = Inr (Some (i, d))
      \<and> get d ''status'' = JStr ''active''
      \<and> bearer ''good''
          \<lparr>user := Some (principal \<lparr>uid = ''u1'', email = JStr ''alice@new.io'', email_verified = JBool True\<rparr>
             (assign [(''id'', JStr ''u1'')] (snd (hd ex_docs))))\<rparr>
        = bearer ''good''\<lparr>user := Some (principal dec (assign [(''id'', JStr i)] d))\<rparr>)
   \<and> get (principal \<lparr>uid = ''u1'', email = JStr ''alice@new.io'', email_verified = JBool True\<rparr>
            (assign [(''id'', JStr ''u1'')] (snd (hd ex_docs)))) ''email'' = JStr ''alice@old.io''
   \<and> get (principal \<lparr>uid = ''u1'', email = JStr ''alice@new.io'', email_verified = JBool True\<rparr>
            (assign [(''id'', JStr ''u1'')] (snd (hd ex_docs)))) ''id'' = JStr ''u1''"
proof -
  note t = principal_profile_precedence
      [where e = ex_env and w = ex_world and req = "bearer ''good''"
         and r = "bearer ''good''
            \<lparr>user := Some (principal \<lparr>uid = ''u1'', email = JStr ''alice@new.io'', email_verified = JBool True\<rparr>
               (assign [(''id'', JStr ''u1'')] (snd (hd ex_docs))))\<rparr>"
         and dec' = "\<lparr>uid = ''u1'', email = JStr ''alice@new.io'', email_verified = JBool True\<rparr>"
         and i' = "''u1''" and d' = "snd (hd ex_docs)"]
  from t good_request_passes have a: "\<exists>rest dec i d.
        authorization (bearer ''good'') = Some (''Bearer '' @ rest)
      \<and> takeWhile (\<lambda>c. c \<noteq> CHR '' '') rest \<noteq> []
      \<and> verifyIdToken ex_env (takeWhile (\<lambda>c. c \<noteq> CHR '' '') rest) = Inr dec
      \<and> doc_get ex_env ex_world (JStr (uid dec)) = Inr (Some (i, d))
      \<and> get d ''status'' = JStr ''active''
      \<and> bearer ''good''
          \<lparr>user := Some (principal \<lparr>uid = ''u1'', email = JStr ''alice@new.io'', email_verified = JBool True\<rparr>
             (assign [(''id'', JStr ''u1'')] (snd (hd ex_docs))))\<rparr>
        = bearer ''good''\<lparr>user := Some (principal dec (assign [(''id'', JStr i)] d))\<rparr>"
    by blast
  from t have f: "\<forall>k. get (principal \<lparr>uid = ''u1'', email = JStr ''alice@new.io'', email_verified = JBool True\<rparr>
            (assign [(''id'', JStr ''u1'')] (snd (hd ex_docs)))) k =
         (case map_of (snd (hd ex_docs)) k of
            Some v \<Rightarrow> v
          | None \<Rightarrow>
              if k = ''id'' then JStr ''u1''
              else if k = ''email''
              then email \<lparr>uid = ''u1'', email = JStr ''alice@new.io'', email_verified = JBool True\<rparr>
              else if k = ''emailVerified''
              then or_js (email_verified \<lparr>uid = ''u1'', email = JStr ''alice@new.io'', email_verified = JBool True\<rparr>)
                     (JBool False)
              else JUndefined)"
    by blast
  have "get (principal \<lparr>uid = ''u1'', email = JStr ''alice@new.io'', email_verified = JBool True\<rparr>
            (assign [(''id'', JStr ''u1'')] (snd (hd ex_docs)))) ''email'' = JStr ''alice@old.io''"
    by (subst f [rule_format]) (simp add: ex_docs_def)
  moreover have "get (principal \<lparr>uid = ''u1'', email = JStr ''alice@new.io'', email_verified = JBool True\<rparr>
            (assign [(''id'', JStr ''u1'')] (snd (hd ex_docs)))) ''id'' = JStr ''u1''"
    by (subst f [rule_format]) (simp add: ex_docs_def)
  ultimately show ?thesis using a by blast
qed

text \<open>
  C2, as the specification states it: a bearer token that the identity provider reports as
  malformed or invalid is answered with status 401 and code \<open>INVALID_TOKEN\<close>. The handler
  answers such a token with status 400: here the provider rejects the token \<open>garbage\<close>
  with \<open>auth/invalid-id-token\<close>.
\<close>

theorem invalid_token_status_counterexample:
  "verifyIdToken ex_env ''garbage'' = Inl (JsError (JStr ''auth/invalid-id-token'') ''malformed'')
   \<and> (case isAuthenticated ex_env ex_world (bearer ''garbage'') of
          Respond r \<Rightarrow> status_code r = 400 \<and> get (json r) ''code'' = JStr ''INVALID_TOKEN''
        | Next r \<Rightarrow> False)"
proof -
  have "isAuthenticated ex_env ex_world (bearer ''garbage'') = Respond invalid_token"
    by (subst isAuthenticated_bearer [where rest = "''garbage''" and token = "''garbage''"])
       (simp_all add: bearer_def ex_env_def)
  then show ?thesis by (simp add: ex_env_def invalid_token_def get_def)
qed

text \<open>
  C2, amended: a well-formed header whose token the identity provider rejects with
  \<open>auth/argument-error\<close> or \<open>auth/invalid-id-token\<close> is answered with status 400 and
  code \<open>INVALID_TOKEN\<close>.
\<close>

theorem isAuthenticated_invalid_token:
  assumes "authorization req = Some (''Bearer '' @ rest)"
    and "takeWhile (\<lambda>c. c \<noteq> CHR '' '') rest = token"
    and "token \<noteq> []"
    and "verifyIdToken e token = Inl err"
    and "err_code err = JStr ''auth/argument-error'' \<or> err_code err = JStr ''auth/invalid-id-token''"
  shows "isAuthenticated e w req = Respond invalid_token
         \<and> status_code invalid_token = 400
         \<and> get (json invalid_token) ''code'' = JStr ''INVALID_TOKEN''"
  using assms(4,5)
  by (auto simp: isAuthenticated_bearer [OF assms(1-3)] invalid_token_def get_def)

theorem isAuthenticated_invalid_token_witness:
  "isAuthenticated ex_env ex_world (bearer ''garbage'') = Respond invalid_token
   \<and> status_code invalid_token = 400
   \<and> get (json invalid_token) ''code'' = JStr ''INVALID_TOKEN''"
  by (rule isAuthenticated_invalid_token
        [where rest = "''garbage''" and token = "''garbage''"
           and err = "JsError (JStr ''auth/invalid-id-token'') ''malformed''"])
     (simp_all add: bearer_def ex_env_def)

text \<open>
  C5. When the token verifies and the profile document exists with a status other than
  \<open>active\<close>, the answer is 403 with code \<open>ACCOUNT_INACTIVE\<close>, its payload carries the
  profile's status, and \<open>next()\<close> is not called.
\<close>

theorem isAuthenticated_account_inactive:
  assumes "authorization req = Some (''Bearer '' @ rest)"
    and "takeWhile (\<lambda>c. c \<noteq> CHR '' '') rest = token"
    and "token \<noteq> []"
    and "verifyIdToken e token = Inr dec"
    and "doc_get e w (JStr (uid dec)) = Inr (Some (i, d))"
    and "get d ''status'' \<noteq> JStr ''active''"
  shows "isAuthenticated e w req = Respond (account_inactive (get d ''status''))
         \<and> status_code (account_inactive (get d ''status'')) = 403
         \<and> get (json (account_inactive (get d ''status''))) ''code'' = JStr ''ACCOUNT_INACTIVE''
         \<and> get (json (account_inactive (get d ''status''))) ''status'' = get d ''status''
         \<and> attached (isAuthenticated e w req) = None"
proof -
  have "isAuthenticated e w req = Respond (account_inactive (get d ''status''))"
    using assms(4,6)
    by (simp add: isAuthenticated_bearer [OF assms(1-3)]
        UserModel_getUserById_found [OF assms(5)] get_profile_status)
  then show ?thesis
    by (simp add: account_inactive_def get_def attached_def)
qed

theorem isAuthenticated_account_inactive_witness:
  "isAuthenticated ex_env ex_world (bearer ''late'') = Respond (account_inactive (JStr ''suspended''))
   \<and> status_code (account_inactive (JStr ''suspended'')) = 403
   \<and> get (json (account_inactive (JStr ''suspended''))) ''code'' = JStr ''ACCOUNT_INACTIVE''
   \<and> get (json (account_inactive (JStr ''suspended''))) ''status'' = JStr ''suspended''
   \<and> attached (isAuthenticated ex_env ex_world (bearer ''late'')) = None"
proof -
  let ?d = "[(''uid'', JStr ''u2''), (''email'', JStr ''bob@x.io''), (''role'', JStr ''doctor''),
             (''status'', JStr ''suspended''), (''emailVerified'', JBool True),
             (''resetToken'', JNull), (''resetTokenExpiry'', JNull)]"
  have s: "get ?d ''status'' = JStr ''suspended''" by (simp add: get_def)
  have "isAuthenticated ex_env ex_world (bearer ''late'') = Respond (account_inactive (get ?d ''status''))
         \<and> status_code (account_inactive (get ?d ''status'')) = 403
         \<and> get (json (account_inactive (get ?d ''status''))) ''code'' = JStr ''ACCOUNT_INACTIVE''
         \<and> get (json (account_inactive (get ?d ''status''))) ''status'' = get ?d ''status''
         \<and> attached (isAuthenticated ex_env ex_world (bearer ''late'')) = None"
    by (rule isAuthenticated_account_inactive
          [where rest = "''late''" and token = "''late''"
             and dec = "\<lparr>uid = ''u2'', email = JStr ''bob@x.io'', email_verified = JBool False\<rparr>"
             and i = "''u2''"])
       (simp_all add: bearer_def ex_env_def ex_world_def ex_docs_def doc_get_def doc_ref_def segments_def lookup_def get_def)
  from this [unfolded s] show ?thesis .
qed

section \<open>The access policy gate\<close>

text \<open>
  C8. With a principal attached, \<open>isOwnerOrAdmin\<close> lets an \<open>admin\<close> pass whatever the
  resource id is; a principal of any other role passes exactly when the resource id
  parameter equals the principal's id, and is answered 403 otherwise.
\<close>

theorem isOwnerOrAdmin_decision:
  assumes "user req = Some p"
  shows "(get p ''role'' = JStr ''admin'' \<longrightarrow> isOwnerOrAdmin idParam req = Next req)
       \<and> (get p ''role'' \<noteq> JStr ''admin'' \<longrightarrow>
            (isOwnerOrAdmin idParam req = Next req \<longleftrightarrow> param req idParam = get p ''id'')
          \<and> (param req idParam \<noteq> get p ''id'' \<longrightarrow>
               isOwnerOrAdmin idParam req = Respond forbidden_ownership))
       \<and> status_code forbidden_ownership = 403"
  using assms by (simp add: isOwnerOrAdmin_def forbidden_ownership_def)

theorem isOwnerOrAdmin_decision_witness:
  "isOwnerOrAdmin ''id'' (as_user ''u9'' ''admin'' ''u1'') = Next (as_user ''u9'' ''admin'' ''u1'')
   \<and> isOwnerOrAdmin ''id'' (as_user ''u1'' ''patient'' ''u1'') = Next (as_user ''u1'' ''patient'' ''u1'')
   \<and> isOwnerOrAdmin ''id'' (as_user ''u2'' ''patient'' ''u1'') = Respond forbidden_ownership
   \<and> status_code forbidden_ownership = 403"
  using isOwnerOrAdmin_decision
          [where req = "as_user ''u9'' ''admin'' ''u1''" and idParam = "''id''"
             and p = "[(''id'', JStr ''u9''), (''role'', JStr ''admin'')]"]
        isOwnerOrAdmin_decision
          [where req = "as_user ''u1'' ''patient'' ''u1''" and idParam = "''id''"
             and p = "[(''id'', JStr ''u1''), (''role'', JStr ''patient'')]"]
        isOwnerOrAdmin_decision
          [where req = "as_user ''u2'' ''patient'' ''u1''" and idParam = "''id''"
             and p = "[(''id'', JStr ''u2''), (''role'', JStr ''patient'')]"]
  by (simp add: as_user_def get_def param_def)

section \<open>The read endpoints\<close>

lemma map_of_omit:
  "map_of (omit ks a) k = (if k \<in> set ks then None else map_of a k)"
  unfolding omit_def by (induction a) auto

lemma map_of_safeUser:
  "map_of (safeUser doc) k =
     (if k \<in> {''password'', ''tokens''} then None
      else case map_of (snd doc) k of
             Some v \<Rightarrow> Some v
           | None \<Rightarrow> if k = ''id'' then Some (JStr (fst doc)) else None)"
  by (simp add: safeUser_def map_of_assign map_add_def map_of_omit split: option.splits)

lemma getUserById_okD:
  assumes "status_code (getUserById e w req) = 200"
  shows "\<exists>prof. UserModel_getUserById e w (param req ''id'') = Inr (Some prof)
           \<and> (\<exists>base. json (getUserById e w req) = assign base prof)"
proof (cases "user req")
  case None
  with assms show ?thesis by (simp add: getUserById_def error_details_def)
next
  case (Some usr)
  show ?thesis
  proof (cases "UserModel_getUserById e w (param req ''id'')")
    case (Inl err)
    with assms Some show ?thesis
      by (simp add: getUserById_def error_details_def Let_def split: if_splits)
  next
    case (Inr r)
    show ?thesis
    proof (cases r)
      case None
      with assms Some Inr show ?thesis
        by (simp add: getUserById_def error_details_def Let_def split: if_splits)
    next
      case prof: (Some prof)
      show ?thesis
      proof (cases "getUser e (param req ''id'')")
        case (Inl authError)
        with assms Some Inr prof show ?thesis
          by (auto simp: getUserById_def error_details_def Let_def split: if_splits)
      next
        case au: (Inr authUser)
        with assms Some Inr prof show ?thesis
          by (auto simp: getUserById_def error_details_def Let_def split: if_splits)
      qed
    qed
  qed
qed

text \<open>
  C10. Every 200 answer of \<open>getUserById\<close> carries each field of the stored profile
  document with its stored value, so a live \<open>resetToken\<close>, \<open>resetTokenExpiry\<close>,
  \<open>emailVerificationToken\<close> or \<open>emailVerificationExpires\<close> is in the answer verbatim;
  \<open>searchUsers\<close>, when the store answers its query, returns each document of the snapshot
  with only \<open>password\<close> and \<open>tokens\<close> removed, every other field (the four token fields
  among them) as stored.
\<close>

theorem read_endpoints_disclose_token_fields:
  "(status_code (getUserById e w req) = 200 \<longrightarrow>
      (\<exists>i d. doc_get e w (param req ''id'') = Inr (Some (i, d))
         \<and> (\<forall>k v. map_of d k = Some v \<longrightarrow> map_of (json (getUserById e w req)) k = Some v)))
   \<and> (read_error e = None \<longrightarrow> searchUsers e snapshot = Inr (map safeUser snapshot))
   \<and> (\<forall>k v. map_of (snd doc) k = Some v \<and> k \<noteq> ''password'' \<and> k \<noteq> ''tokens''
         \<longrightarrow> map_of (safeUser doc) k = Some v)
   \<and> map_of (safeUser doc) ''password'' = None
   \<and> map_of (safeUser doc) ''tokens'' = None"
proof -
  have a: "\<exists>i d. doc_get e w (param req ''id'') = Inr (Some (i, d))
         \<and> (\<forall>k v. map_of d k = Some v \<longrightarrow> map_of (json (getUserById e w req)) k = Some v)"
    if ok: "status_code (getUserById e w req) = 200"
  proof -
    from getUserById_okD [OF ok] obtain prof base where
      u: "UserModel_getUserById e w (param req ''id'') = Inr (Some prof)"
      and j: "json (getUserById e w req) = assign base prof"
      by blast
    from UserModel_getUserById_SomeD [OF u] obtain i d where
      g: "doc_get e w (param req ''id'') = Inr (Some (i, d))"
      and p: "prof = assign [(''id'', JStr i)] d"
      by blast
    have "map_of (json (getUserById e w req)) k = Some v" if "map_of d k = Some v" for k v
      using that by (simp add: j p map_of_assign map_add_def)
    with g show ?thesis by blast
  qed
  have b: "searchUsers e snapshot = Inr (map safeUser snapshot)" if "read_error e = None"
    using that by (simp add: searchUsers_def)
  show ?thesis using a b by (simp add: map_of_safeUser)
qed

theorem read_endpoints_disclose_token_fields_witness:
  "(\<exists>i d. doc_get ex_env ex_world (param (as_user ''u1'' ''patient'' ''u1'') ''id'') = Inr (Some (i, d))
         \<and> (\<forall>k v. map_of d k = Some v \<longrightarrow>
               map_of (json (getUserById ex_env ex_world (as_user ''u1'' ''patient'' ''u1''))) k = Some v))
   \<and> searchUsers ex_env ex_docs = Inr (map safeUser ex_docs)
   \<and> map_of (safeUser (hd ex_docs)) ''resetToken'' = Some (JStr ''r1'')
   \<and> map_of (safeUser (hd ex_docs)) ''resetTokenExpiry'' = Some (JNum 2000)
   \<and> map_of (safeUser (hd ex_docs)) ''emailVerificationToken'' = Some (JStr ''v1'')
   \<and> map_of (safeUser (hd ex_docs)) ''emailVerificationExpires'' = Some (JDate 2000)"
proof -
  have ok: "status_code (getUserById ex_env ex_world (as_user ''u1'' ''patient'' ''u1'')) = 200"
    by (simp add: getUserById_def as_user_def param_def get_def ex_env_def ex_world_def ex_docs_def
        UserModel_getUserById_def doc_get_def doc_ref_def segments_def lookup_def Let_def)
  have rd: "read_error ex_env = None" by (simp add: ex_env_def)
  note t = read_endpoints_disclose_token_fields
      [where e = ex_env and w = ex_world and req = "as_user ''u1'' ''patient'' ''u1''"
         and doc = "hd ex_docs" and snapshot = ex_docs]
  from t ok have a: "\<exists>i d. doc_get ex_env ex_world (param (as_user ''u1'' ''patient'' ''u1'') ''id'')
           = Inr (Some (i, d))
         \<and> (\<forall>k v. map_of d k = Some v \<longrightarrow>
               map_of (json (getUserById ex_env ex_world (as_user ''u1'' ''patient'' ''u1''))) k = Some v)"
    by blast
  from t rd have b: "searchUsers ex_env ex_docs = Inr (map safeUser ex_docs)" by blast
  from t have c: "\<forall>k v. map_of (snd (hd ex_docs)) k = Some v \<and> k \<noteq> ''password'' \<and> k \<noteq> ''tokens''
         \<longrightarrow> map_of (safeUser (hd ex_docs)) k = Some v"
    by blast
  have "map_of (safeUser (hd ex_docs)) ''resetToken'' = Some (JStr ''r1'')"
    by (rule c [rule_format]) (simp add: ex_docs_def)
  moreover have "map_of (safeUser (hd ex_docs)) ''resetTokenExpiry'' = Some (JNum 2000)"
    by (rule c [rule_format]) (simp add: ex_docs_def)
  moreover have "map_of (safeUser (hd ex_docs)) ''emailVerificationToken'' = Some (JStr ''v1'')"
    by (rule c [rule_format]) (simp add: ex_docs_def)
  moreover have "map_of (safeUser (hd ex_docs)) ''emailVerificationExpires'' = Some (JDate 2000)"
    by (rule c [rule_format]) (simp add: ex_docs_def)
  ultimately show ?thesis using a b by blast
qed

section \<open>The security token workflow\<close>

lemma requestPasswordReset_answer:
  "requestPasswordReset e w req =
     (case getUserByEmail e (get (body req) ''email'') of
        Inl err \<Rightarrow> (reset_link_sent, w)
      | Inr usr \<Rightarrow> (server_error ''Error processing password reset request'', w))"
  by (simp add: requestPasswordReset_def db_def Let_def split: sum.splits)

lemma resetPassword_answer:
  "resetPassword e w req =
     (if truthy (get (body req) ''token'') \<and> truthy (get (body req) ''newPassword'')
      then (server_error ''Error resetting password'', w)
      else (bad_request ''Token and new password are required'', w))"
  by (simp add: resetPassword_def db_def Let_def)

lemma verifyEmail_answer:
  "verifyEmail e w req =
     (if truthy (get (query req) ''token'')
      then (server_error ''Error verifying email'', w)
      else (bad_request ''Verification token is required'', w))"
  by (simp add: verifyEmail_def db_def Let_def)



text \<open>
  C4 says that \<open>requestPasswordReset\<close> answers an email with an account and an email without
  one alike. An unknown email (the provider's lookup rejects) gets the generic 200 answer,
  and nothing is stored or sent. An email with an account never gets it: the handler
  evaluates \<open>db\<close> to store the token, and answers 500 with another body; no token is
  stored and no mail is sent for it either.
\<close>

theorem requestPasswordReset_reveals_account:
  "(getUserByEmail e (get (body req) ''email'') = Inl err
      \<longrightarrow> requestPasswordReset e w req = (reset_link_sent, w))
   \<and> (getUserByEmail e (get (body req) ''email'') = Inr usr
      \<longrightarrow> requestPasswordReset e w req
            = (server_error ''Error processing password reset request'', w))
   \<and> status_code reset_link_sent = 200
   \<and> status_code (server_error msg) = 500"
  by (simp add: requestPasswordReset_answer reset_link_sent_def ok_message_def server_error_def)

theorem requestPasswordReset_reveals_account_witness:
  "requestPasswordReset ex_env ex_world (reset_request ''nobody@x.io'') = (reset_link_sent, ex_world)
   \<and> requestPasswordReset ex_env ex_world (reset_request ''alice@new.io'')
       = (server_error ''Error processing password reset request'', ex_world)
   \<and> status_code reset_link_sent = 200
   \<and> status_code (server_error ''Error processing password reset request'') = 500"
proof -
  have "getUserByEmail ex_env (get (body (reset_request ''nobody@x.io'')) ''email'')
          = Inl (JsError (JStr ''auth/user-not-found'') ''no user'')"
    by (simp add: ex_env_def reset_request_def get_def)
  moreover have "getUserByEmail ex_env (get (body (reset_request ''alice@new.io'')) ''email'') = Inr alice"
    by (simp add: ex_env_def reset_request_def get_def)
  ultimately show ?thesis
    using requestPasswordReset_reveals_account
            [where e = ex_env and w = ex_world and req = "reset_request ''nobody@x.io''"
               and err = "JsError (JStr ''auth/user-not-found'') ''no user''"
               and msg = "''Error processing password reset request''"]
          requestPasswordReset_reveals_account
            [where e = ex_env and w = ex_world and req = "reset_request ''alice@new.io''"
               and usr = alice and msg = "''Error processing password reset request''"]
    by blast
qed

text \<open>
  C6 says that a token is accepted exactly when it is the stored one and the current time
  is strictly before the stored expiry. The handlers accept no token: a request whose
  token is valid in that sense, for some profile of the store, is answered 500 like any
  other request that carries a token, and neither handler ever answers 200.
\<close>

theorem valid_token_is_not_accepted:
  "((i, d) \<in> set (docs w)
      \<and> token_valid (get (body req) ''token'') (now e) (get d ''resetToken'') (get d ''resetTokenExpiry'')
      \<and> truthy (get (body req) ''token'') \<and> truthy (get (body req) ''newPassword'')
    \<longrightarrow> status_code (fst (resetPassword e w req)) = 500)
   \<and> ((i, d) \<in> set (docs w)
      \<and> token_valid (get (query req) ''token'') (now e)
           (get d ''emailVerificationToken'') (get d ''emailVerificationExpires'')
      \<and> truthy (get (query req) ''token'')
    \<longrightarrow> status_code (fst (verifyEmail e w req)) = 500)
   \<and> status_code (fst (resetPassword e w req)) \<noteq> 200
   \<and> status_code (fst (verifyEmail e w req)) \<noteq> 200"
  by (simp add: resetPassword_answer verifyEmail_answer server_error_def bad_request_def)

theorem valid_token_is_not_accepted_witness:
  "token_valid (JStr ''r1'') 1999 (get (snd (hd ex_docs)) ''resetToken'')
       (get (snd (hd ex_docs)) ''resetTokenExpiry'')
   \<and> status_code (fst (resetPassword (ex_env\<lparr>now := 1999\<rparr>) ex_world (reset_with ''r1''))) = 500
   \<and> token_valid (JStr ''v1'') 1999 (get (snd (hd ex_docs)) ''emailVerificationToken'')
       (get (snd (hd ex_docs)) ''emailVerificationExpires'')
   \<and> status_code (fst (verifyEmail (ex_env\<lparr>now := 1999\<rparr>) ex_world (verify_with ''v1''))) = 500"
proof -
  have m: "(''u1'', snd (hd ex_docs)) \<in> set (docs ex_world)"
    by (simp add: ex_world_def ex_docs_def)
  have n: "now (ex_env\<lparr>now := 1999\<rparr>) = 1999" by simp
  have v1: "token_valid (JStr ''r1'') 1999 (get (snd (hd ex_docs)) ''resetToken'')
       (get (snd (hd ex_docs)) ''resetTokenExpiry'')"
    by (simp add: token_valid_def before_expiry_def ex_docs_def get_def)
  have v2: "token_valid (JStr ''v1'') 1999 (get (snd (hd ex_docs)) ''emailVerificationToken'')
       (get (snd (hd ex_docs)) ''emailVerificationExpires'')"
    by (simp add: token_valid_def before_expiry_def ex_docs_def get_def)
  have b: "get (body (reset_with ''r1'')) ''token'' = JStr ''r1''"
    "truthy (get (body (reset_with ''r1'')) ''token'')"
    "truthy (get (body (reset_with ''r1'')) ''newPassword'')"
    by (simp_all add: reset_with_def get_def)
  have q: "get (query (verify_with ''v1'')) ''token'' = JStr ''v1''"
    "truthy (get (query (verify_with ''v1'')) ''token'')"
    by (simp_all add: verify_with_def get_def)
  show ?thesis
    using valid_token_is_not_accepted
            [where e = "ex_env\<lparr>now := 1999\<rparr>" and w = ex_world and req = "reset_with ''r1''"
               and i = "''u1''" and d = "snd (hd ex_docs)"]
          valid_token_is_not_accepted
            [where e = "ex_env\<lparr>now := 1999\<rparr>" and w = ex_world and req = "verify_with ''v1''"
               and i = "''u1''" and d = "snd (hd ex_docs)"]
          m v1 v2 b q
    unfolding n by metis
qed



end
